theory Spec2Isabelle
  imports Complex_Main
begin

section \<open>Messages of the device interface\<close>

text \<open>
  Modelled from the spec: the request and response messages of the device interface. Their
  classes (\<open>spacex/api/device/device.pb.h\<close>) are generated and are not among the sources.
  The spec gives a status payload an optional device-info sub-record and a location payload
  an optional latitude, longitude and altitude sub-record. \<open>fetchStatus\<close> builds three
  requests (\<open>mutable_get_status\<close>, \<open>mutable_get_location\<close>, \<open>mutable_get_history\<close>) and
  reads a response only through \<open>has_get_device_info\<close>, \<open>get_device_info().device_info()\<close>,
  \<open>has_get_location\<close>, \<open>get_location()\<close>, \<open>has_lla\<close> and \<open>lla()\<close>. An optional sub-message
  is an \<open>option\<close>; the \<open>has_\<close> test is \<open>\<noteq> None\<close>. A \<open>double\<close> is carried through
  unchanged, so its type is a parameter.
\<close>

datatype Request = GetStatusRequest | GetLocationRequest | GetHistoryRequest

record DeviceInfo =
  id_str :: string
  hardware_version :: string

record GetDeviceInfoResponse =
  opt_device_info :: "DeviceInfo option"

text \<open>Reading an unset sub-message gives the default instance, whose strings are empty.\<close>

definition device_info :: "GetDeviceInfoResponse \<Rightarrow> DeviceInfo" where
  "device_info r =
     (case opt_device_info r of
        Some i \<Rightarrow> i
      | None \<Rightarrow> \<lparr>id_str = [], hardware_version = []\<rparr>)"

record 'd LLAPosition =
  lat :: 'd
  lon :: 'd
  alt :: 'd

record 'd GetLocationResponse =
  lla :: "'d LLAPosition option"

record 'd Response =
  get_device_info :: "GetDeviceInfoResponse option"
  get_location :: "'d GetLocationResponse option"

text \<open>\<open>grpc::Status\<close>, read through \<open>ok()\<close> and \<open>error_message()\<close>.\<close>

record Status =
  ok :: bool
  error_message :: string

text \<open>What one \<open>stub_->Handle(&context, request, &response)\<close> leaves behind.\<close>

record 'd Reply =
  status :: Status
  response :: "'d Response"

text \<open>
  The device and the network are outside the program: the stub is any function from the
  number of calls made so far and the request to a reply, so that two cycles may see
  different answers to the same request.
\<close>

type_synonym 'd Stub = "nat \<Rightarrow> Request \<Rightarrow> 'd Reply"

section \<open>Signals, the timer and the observable trace\<close>

text \<open>
  The four signals of \<open>StarlinkClient\<close>. \<open>speedUpdated\<close> carries three \<open>float\<close>s; the only
  values the program ever passes are the literals \<open>100.0f\<close>, \<open>20.0f\<close> and \<open>30.0f\<close>, which
  are exact, so they are read as the reals 100, 20 and 30. \<open>QString::fromStdString\<close> is
  read as the identity on strings.
\<close>

datatype 'd signal =
    statusChanged bool
  | speedUpdated real real real
  | locationUpdated 'd 'd 'd
  | satelliteInfoUpdated string string

text \<open>
  Every effect of the program on its surroundings, in program order: a call through the
  stub, an emitted signal, a line written with \<open>qWarning()\<close> (the streamed items, in
  order), and the two calls on the poll timer.
\<close>

datatype 'd action =
    Handle Request
  | Emit "'d signal"
  | qWarning "string list"
  | TimerStart int
  | TimerStop

text \<open>
  \<open>QTimer\<close> as the program uses it. \<open>remaining\<close> is the countdown, in milliseconds, to the
  next tick; it is read only while the timer is active. \<open>start(msec)\<close> sets the interval,
  makes the timer active and begins the countdown at \<open>msec\<close>: a timer that is already
  running is stopped and started again, so its countdown begins anew. \<open>stop()\<close> makes the
  timer inactive. While time passes the countdown of an active timer falls, not below 0.
  The timer is never made single-shot, so it repeats.
\<close>

record QTimer =
  isActive :: bool
  interval :: int
  remaining :: int

definition QTimer_start :: "int \<Rightarrow> QTimer \<Rightarrow> QTimer" where
  "QTimer_start msec t = t\<lparr>isActive := True, interval := msec, remaining := msec\<rparr>"

definition QTimer_stop :: "QTimer \<Rightarrow> QTimer" where
  "QTimer_stop t = t\<lparr>isActive := False\<rparr>"

definition QTimer_elapse :: "nat \<Rightarrow> QTimer \<Rightarrow> QTimer" where
  "QTimer_elapse d t =
     (if isActive t then t\<lparr>remaining := max 0 (remaining t - int d)\<rparr> else t)"

text \<open>
  The state threaded through the program: the member \<open>pollTimer_\<close>, the number of calls
  made through \<open>stub_\<close> so far, and the trace of effects so far.
\<close>

record 'd world =
  pollTimer :: QTimer
  calls :: nat
  trace :: "'d action list"

definition emit :: "'d signal \<Rightarrow> 'd world \<Rightarrow> 'd world" where
  "emit s w = w\<lparr>trace := trace w @ [Emit s]\<rparr>"

definition warn :: "string list \<Rightarrow> 'd world \<Rightarrow> 'd world" where
  "warn items w = w\<lparr>trace := trace w @ [qWarning items]\<rparr>"

text \<open>
  \<open>std::string::c_str()\<close> streamed into \<open>qWarning()\<close>: the text read from a
  \<open>const char*\<close> ends before the first NUL byte.
\<close>

definition c_str :: "string \<Rightarrow> string" where
  "c_str s = takeWhile (\<lambda>c. c \<noteq> CHR 0x00) s"

definition stub_Handle :: "'d Stub \<Rightarrow> Request \<Rightarrow> 'd world \<Rightarrow> 'd Reply \<times> 'd world" where
  "stub_Handle stub req w =
     (stub (calls w) req, w\<lparr>calls := Suc (calls w), trace := trace w @ [Handle req]\<rparr>)"

section \<open>StarlinkClient\<close>

text \<open>The constructor: a new, inactive timer (Qt's default interval is 0).\<close>

definition StarlinkClient_new :: "nat \<Rightarrow> 'd world" where
  "StarlinkClient_new n =
     \<lparr>pollTimer = \<lparr>isActive = False, interval = 0, remaining = 0\<rparr>, calls = n, trace = []\<rparr>"

text \<open>\<open>StarlinkClient::fetchStatus\<close>, block by block.\<close>

definition fetch_status_block :: "'d Stub \<Rightarrow> 'd world \<Rightarrow> 'd world" where
  "fetch_status_block stub w =
     (let (r, w1) = stub_Handle stub GetStatusRequest w in
      if ok (status r) then
        (let w2 = emit (statusChanged True) w1 in
         case get_device_info (response r) of
           Some gdi \<Rightarrow>
             (let info = device_info gdi in
              emit (satelliteInfoUpdated (id_str info) (hardware_version info)) w2)
         | None \<Rightarrow> w2)
      else
        warn [''gRPC Status Failed:'', c_str (error_message (status r))]
          (emit (statusChanged False) w1))"

definition fetch_location_block :: "'d Stub \<Rightarrow> 'd world \<Rightarrow> 'd world" where
  "fetch_location_block stub w =
     (let (r, w1) = stub_Handle stub GetLocationRequest w in
      if ok (status r) \<and> get_location (response r) \<noteq> None then
        (case get_location (response r) of
           Some loc \<Rightarrow>
             (case lla loc of
                Some p \<Rightarrow> emit (locationUpdated (lat p) (lon p) (alt p)) w1
              | None \<Rightarrow> w1)
         | None \<Rightarrow> w1)
      else w1)"

definition fetch_history_block :: "'d Stub \<Rightarrow> 'd world \<Rightarrow> 'd world" where
  "fetch_history_block stub w =
     (let (r, w1) = stub_Handle stub GetHistoryRequest w in
      if ok (status r) then emit (speedUpdated 100 20 30) w1 else w1)"

definition fetchStatus :: "'d Stub \<Rightarrow> 'd world \<Rightarrow> 'd world" where
  "fetchStatus stub w =
     fetch_history_block stub (fetch_location_block stub (fetch_status_block stub w))"

definition startMonitoring :: "'d Stub \<Rightarrow> 'd world \<Rightarrow> 'd world" where
  "startMonitoring stub w =
     fetchStatus stub
       (w\<lparr>pollTimer := QTimer_start 5000 (pollTimer w), trace := trace w @ [TimerStart 5000]\<rparr>)"

definition stopMonitoring :: "'d world \<Rightarrow> 'd world" where
  "stopMonitoring w =
     w\<lparr>pollTimer := QTimer_stop (pollTimer w), trace := trace w @ [TimerStop]\<rparr>"

text \<open>The destructor \<open>~StarlinkClient\<close>.\<close>

definition StarlinkClient_delete :: "'d world \<Rightarrow> 'd world" where
  "StarlinkClient_delete w = stopMonitoring w"

text \<open>
  The constructor connects the timer's \<open>timeout\<close> to \<open>fetchStatus\<close>. The timer ticks only
  when it is active and its countdown has run out; an inactive timer, and one whose
  interval has not yet passed, does not tick. At a tick the countdown begins again at the
  interval, and the connected \<open>fetchStatus\<close> runs one cycle.
\<close>

definition timeout :: "'d Stub \<Rightarrow> 'd world \<Rightarrow> 'd world" where
  "timeout stub w =
     (if isActive (pollTimer w) \<and> remaining (pollTimer w) \<le> 0 then
        fetchStatus stub (w\<lparr>pollTimer := (pollTimer w)\<lparr>remaining := interval (pollTimer w)\<rparr>\<rparr>)
      else w)"

section \<open>What one cycle does\<close>

text \<open>The effects added by one execution of \<open>fetchStatus\<close>, and the parts of a trace.\<close>

definition cycle :: "'d Stub \<Rightarrow> 'd world \<Rightarrow> 'd action list" where
  "cycle stub w = drop (length (trace w)) (trace (fetchStatus stub w))"

fun signals :: "'d action list \<Rightarrow> 'd signal list" where
  "signals [] = []"
| "signals (Emit s # as) = s # signals as"
| "signals (_ # as) = signals as"

fun warnings :: "'d action list \<Rightarrow> string list list" where
  "warnings [] = []"
| "warnings (qWarning m # as) = m # warnings as"
| "warnings (_ # as) = warnings as"

text \<open>The arguments of the signals of one kind in a list of signals, in order.\<close>

fun statusChanged_args :: "'d signal list \<Rightarrow> bool list" where
  "statusChanged_args [] = []"
| "statusChanged_args (statusChanged b # ss) = b # statusChanged_args ss"
| "statusChanged_args (_ # ss) = statusChanged_args ss"

fun satelliteInfoUpdated_args :: "'d signal list \<Rightarrow> (string \<times> string) list" where
  "satelliteInfoUpdated_args [] = []"
| "satelliteInfoUpdated_args (satelliteInfoUpdated i h # ss) = (i, h) # satelliteInfoUpdated_args ss"
| "satelliteInfoUpdated_args (_ # ss) = satelliteInfoUpdated_args ss"

fun locationUpdated_args :: "'d signal list \<Rightarrow> ('d \<times> 'd \<times> 'd) list" where
  "locationUpdated_args [] = []"
| "locationUpdated_args (locationUpdated x y z # ss) = (x, y, z) # locationUpdated_args ss"
| "locationUpdated_args (_ # ss) = locationUpdated_args ss"

fun speedUpdated_args :: "'d signal list \<Rightarrow> (real \<times> real \<times> real) list" where
  "speedUpdated_args [] = []"
| "speedUpdated_args (speedUpdated d u l # ss) = (d, u, l) # speedUpdated_args ss"
| "speedUpdated_args (_ # ss) = speedUpdated_args ss"

text \<open>The three replies a cycle started in \<open>w\<close> receives.\<close>

definition status_reply :: "'d Stub \<Rightarrow> 'd world \<Rightarrow> 'd Reply" where
  "status_reply stub w = stub (calls w) GetStatusRequest"

definition location_reply :: "'d Stub \<Rightarrow> 'd world \<Rightarrow> 'd Reply" where
  "location_reply stub w = stub (calls w + 1) GetLocationRequest"

definition history_reply :: "'d Stub \<Rightarrow> 'd world \<Rightarrow> 'd Reply" where
  "history_reply stub w = stub (calls w + 2) GetHistoryRequest"

section \<open>The event loop\<close>

text \<open>
  What can happen to a client between its construction and its destruction: the event
  loop looks at the timer, the owner calls \<open>startMonitoring\<close> or \<open>stopMonitoring\<close>, or
  some milliseconds pass with no handler running. The handlers run one after another,
  each to its end; the time a handler itself takes is not modelled.
\<close>

datatype event = Timeout | StartMonitoring | StopMonitoring | Elapse nat

fun dispatch :: "'d Stub \<Rightarrow> event \<Rightarrow> 'd world \<Rightarrow> 'd world" where
  "dispatch stub Timeout w = timeout stub w"
| "dispatch stub StartMonitoring w = startMonitoring stub w"
| "dispatch stub StopMonitoring w = stopMonitoring w"
| "dispatch stub (Elapse d) w = w\<lparr>pollTimer := QTimer_elapse d (pollTimer w)\<rparr>"

fun run :: "'d Stub \<Rightarrow> event list \<Rightarrow> 'd world \<Rightarrow> 'd world" where
  "run stub [] w = w"
| "run stub (e # es) w = run stub es (dispatch stub e w)"

text \<open>
  The place of a signal in the order status, device identity, position, throughput, and
  lists whose elements strictly increase.
\<close>

fun signal_rank :: "'d signal \<Rightarrow> nat" where
  "signal_rank (statusChanged _) = 0"
| "signal_rank (satelliteInfoUpdated _ _) = 1"
| "signal_rank (locationUpdated _ _ _) = 2"
| "signal_rank (speedUpdated _ _ _) = 3"

fun increasing :: "nat list \<Rightarrow> bool" where
  "increasing [] = True"
| "increasing [x] = True"
| "increasing (x # y # zs) = (x < y \<and> increasing (y # zs))"

section \<open>Example devices\<close>

definition reply_failed :: "real Reply" where
  "reply_failed =
     \<lparr>status = \<lparr>ok = False, error_message = ''failed to connect to all addresses''\<rparr>,
      response = \<lparr>get_device_info = None, get_location = None\<rparr>\<rparr>"

definition reply_device_info :: "real Reply" where
  "reply_device_info =
     \<lparr>status = \<lparr>ok = True, error_message = []\<rparr>,
      response =
        \<lparr>get_device_info =
           Some \<lparr>opt_device_info = Some \<lparr>id_str = ''SAT123'', hardware_version = ''rev2''\<rparr>\<rparr>,
         get_location = None\<rparr>\<rparr>"

definition reply_location :: "real Reply" where
  "reply_location =
     \<lparr>status = \<lparr>ok = True, error_message = []\<rparr>,
      response =
        \<lparr>get_device_info = None,
         get_location = Some \<lparr>lla = Some \<lparr>lat = 37.4, lon = - 122.1, alt = 15\<rparr>\<rparr>\<rparr>\<rparr>"

definition reply_unresolved_location :: "real Reply" where
  "reply_unresolved_location =
     \<lparr>status = \<lparr>ok = True, error_message = []\<rparr>,
      response = \<lparr>get_device_info = None, get_location = Some \<lparr>lla = None\<rparr>\<rparr>\<rparr>"

definition reply_empty :: "real Reply" where
  "reply_empty =
     \<lparr>status = \<lparr>ok = True, error_message = []\<rparr>,
      response = \<lparr>get_device_info = None, get_location = None\<rparr>\<rparr>"

text \<open>A failure whose message has a NUL byte in it.\<close>

definition reply_failed_nul :: "real Reply" where
  "reply_failed_nul =
     \<lparr>status = \<lparr>ok = False, error_message = [CHR ''a'', CHR ''b'', CHR 0x00, CHR ''c'', CHR ''d'']\<rparr>,
      response = \<lparr>get_device_info = None, get_location = None\<rparr>\<rparr>"

text \<open>A device that cannot be reached.\<close>

definition stub_unreachable :: "real Stub" where
  "stub_unreachable n req = reply_failed_nul"

text \<open>A device that answers all three calls.\<close>

definition stub_all_ok :: "real Stub" where
  "stub_all_ok n req =
     (case req of
        GetStatusRequest \<Rightarrow> reply_device_info
      | GetLocationRequest \<Rightarrow> reply_location
      | GetHistoryRequest \<Rightarrow> reply_empty)"

text \<open>A device whose status call fails while the other two succeed.\<close>

definition stub_status_fails :: "real Stub" where
  "stub_status_fails n req =
     (case req of
        GetStatusRequest \<Rightarrow> reply_failed
      | GetLocationRequest \<Rightarrow> reply_location
      | GetHistoryRequest \<Rightarrow> reply_empty)"

text \<open>A device that answers the status call only, and has no position.\<close>

definition stub_status_only :: "real Stub" where
  "stub_status_only n req =
     (case req of
        GetStatusRequest \<Rightarrow> reply_device_info
      | GetLocationRequest \<Rightarrow> reply_unresolved_location
      | GetHistoryRequest \<Rightarrow> reply_failed)"

section \<open>The trace of one cycle\<close>

definition status_actions :: "'d Reply \<Rightarrow> 'd action list" where
  "status_actions r =
     Handle GetStatusRequest #
     (if ok (status r) then
        Emit (statusChanged True) #
        (case get_device_info (response r) of
           Some gdi \<Rightarrow>
             [Emit (satelliteInfoUpdated (id_str (device_info gdi))
                 (hardware_version (device_info gdi)))]
         | None \<Rightarrow> [])
      else [Emit (statusChanged False),
            qWarning [''gRPC Status Failed:'', c_str (error_message (status r))]])"

definition location_actions :: "'d Reply \<Rightarrow> 'd action list" where
  "location_actions r =
     Handle GetLocationRequest #
     (if ok (status r) then
        (case get_location (response r) of
           Some loc \<Rightarrow>
             (case lla loc of
                Some p \<Rightarrow> [Emit (locationUpdated (lat p) (lon p) (alt p))]
              | None \<Rightarrow> [])
         | None \<Rightarrow> [])
      else [])"

definition history_actions :: "'d Reply \<Rightarrow> 'd action list" where
  "history_actions r =
     Handle GetHistoryRequest # (if ok (status r) then [Emit (speedUpdated 100 20 30)] else [])"

lemma fetch_status_block_eq:
  "fetch_status_block stub w =
     w\<lparr>calls := Suc (calls w), trace := trace w @ status_actions (stub (calls w) GetStatusRequest)\<rparr>"
  by (simp add: fetch_status_block_def stub_Handle_def emit_def warn_def status_actions_def
      Let_def split: option.split)

lemma fetch_location_block_eq:
  "fetch_location_block stub w =
     w\<lparr>calls := Suc (calls w), trace := trace w @ location_actions (stub (calls w) GetLocationRequest)\<rparr>"
  by (simp add: fetch_location_block_def stub_Handle_def emit_def location_actions_def
      Let_def split: option.split)

lemma fetch_history_block_eq:
  "fetch_history_block stub w =
     w\<lparr>calls := Suc (calls w), trace := trace w @ history_actions (stub (calls w) GetHistoryRequest)\<rparr>"
  by (simp add: fetch_history_block_def stub_Handle_def emit_def history_actions_def Let_def)

lemma fetchStatus_eq:
  "fetchStatus stub w =
     w\<lparr>calls := calls w + 3,
       trace := trace w @ status_actions (status_reply stub w)
         @ location_actions (location_reply stub w)
         @ history_actions (history_reply stub w)\<rparr>"
  by (simp add: fetchStatus_def fetch_status_block_eq fetch_location_block_eq
      fetch_history_block_eq status_reply_def location_reply_def history_reply_def)

lemma cycle_eq:
  "cycle stub w =
     status_actions (status_reply stub w) @ location_actions (location_reply stub w)
       @ history_actions (history_reply stub w)"
  by (simp add: cycle_def fetchStatus_eq)

lemma signals_append: "signals (xs @ ys) = signals xs @ signals ys"
  by (induction xs rule: signals.induct) simp_all

lemma warnings_append: "warnings (xs @ ys) = warnings xs @ warnings ys"
  by (induction xs rule: warnings.induct) simp_all

lemma signals_status_actions:
  "signals (status_actions r) =
     statusChanged (ok (status r)) #
     (if ok (status r) then
        (case get_device_info (response r) of
           Some gdi \<Rightarrow>
             [satelliteInfoUpdated (id_str (device_info gdi)) (hardware_version (device_info gdi))]
         | None \<Rightarrow> [])
      else [])"
  by (simp add: status_actions_def split: option.split)

lemma signals_location_actions:
  "signals (location_actions r) =
     (if ok (status r) then
        (case get_location (response r) of
           Some loc \<Rightarrow>
             (case lla loc of
                Some p \<Rightarrow> [locationUpdated (lat p) (lon p) (alt p)]
              | None \<Rightarrow> [])
         | None \<Rightarrow> [])
      else [])"
  by (simp add: location_actions_def split: option.split)

lemma signals_history_actions:
  "signals (history_actions r) = (if ok (status r) then [speedUpdated 100 20 30] else [])"
  by (simp add: history_actions_def)

lemma statusChanged_args_append:
  "statusChanged_args (xs @ ys) = statusChanged_args xs @ statusChanged_args ys"
  by (induction xs rule: statusChanged_args.induct) simp_all

lemma satelliteInfoUpdated_args_append:
  "satelliteInfoUpdated_args (xs @ ys) =
     satelliteInfoUpdated_args xs @ satelliteInfoUpdated_args ys"
  by (induction xs rule: satelliteInfoUpdated_args.induct) simp_all

lemma locationUpdated_args_append:
  "locationUpdated_args (xs @ ys) = locationUpdated_args xs @ locationUpdated_args ys"
  by (induction xs rule: locationUpdated_args.induct) simp_all

lemma speedUpdated_args_append:
  "speedUpdated_args (xs @ ys) = speedUpdated_args xs @ speedUpdated_args ys"
  by (induction xs rule: speedUpdated_args.induct) simp_all

lemma signals_cycle:
  "signals (cycle stub w) =
     signals (status_actions (status_reply stub w))
       @ signals (location_actions (location_reply stub w))
       @ signals (history_actions (history_reply stub w))"
  by (simp add: cycle_eq signals_append)



lemmas cycle_signals =
  signals_cycle signals_status_actions signals_location_actions signals_history_actions
  statusChanged_args_append satelliteInfoUpdated_args_append locationUpdated_args_append
  speedUpdated_args_append

lemmas example_defs =
  status_reply_def location_reply_def history_reply_def StarlinkClient_new_def
  stub_all_ok_def stub_status_fails_def stub_status_only_def stub_unreachable_def
  reply_failed_def reply_failed_nul_def reply_device_info_def reply_location_def reply_unresolved_location_def
  reply_empty_def

section \<open>One polling cycle\<close>

text \<open>
  C1. In every polling cycle (one execution of \<open>fetchStatus\<close>, from any state and against
  any stub) exactly one \<open>statusChanged\<close> signal is emitted, and its argument is the value
  of \<open>ok()\<close> of the status call of that cycle: true if and only if that call succeeded.
\<close>

theorem C1_one_statusChanged_per_cycle:
  "statusChanged_args (signals (cycle stub w)) = [ok (status (status_reply stub w))]"
  by (simp add: cycle_signals split: option.split)

text \<open>
  C2. In every cycle \<open>satelliteInfoUpdated\<close> is emitted exactly when the status call
  succeeded and its response has the device-info sub-record; it is then emitted once, with
  the \<open>id\<close> and the \<open>hardware_version\<close> of that sub-record. A cycle that emits
  \<open>statusChanged(false)\<close> emits no \<open>satelliteInfoUpdated\<close>.
\<close>

theorem C2_satelliteInfoUpdated_iff:
  "satelliteInfoUpdated_args (signals (cycle stub w)) =
     (if ok (status (status_reply stub w)) then
        (case get_device_info (response (status_reply stub w)) of
           Some gdi \<Rightarrow> [(id_str (device_info gdi), hardware_version (device_info gdi))]
         | None \<Rightarrow> [])
      else [])
   \<and> (False \<in> set (statusChanged_args (signals (cycle stub w))) \<longrightarrow>
        satelliteInfoUpdated_args (signals (cycle stub w)) = [])"
  by (simp add: cycle_signals split: option.split)

theorem C2_witness:
  "False \<in> set (statusChanged_args (signals (cycle stub_status_fails (StarlinkClient_new 0))))
   \<and> satelliteInfoUpdated_args (signals (cycle stub_status_fails (StarlinkClient_new 0))) = []
   \<and> satelliteInfoUpdated_args (signals (cycle stub_all_ok (StarlinkClient_new 0))) =
       [(''SAT123'', ''rev2'')]"
  using C2_satelliteInfoUpdated_iff [of stub_status_fails "StarlinkClient_new 0"]
    C2_satelliteInfoUpdated_iff [of stub_all_ok "StarlinkClient_new 0"]
  by (simp add: cycle_signals example_defs device_info_def)

text \<open>
  C3. Whether \<open>locationUpdated\<close> is emitted, and with what, is decided by the reply to the
  location call alone, and whether \<open>speedUpdated\<close> is emitted by the reply to the history
  call alone: two cycles (of any two devices, in any two states) that get the same location
  reply emit the same \<open>locationUpdated\<close> signals, whatever their status calls return, and
  likewise for history. When the status call fails and the location call (with a resolved
  position) and the history call succeed, the signals of the cycle are exactly
  \<open>statusChanged(false)\<close>, \<open>locationUpdated\<close>, \<open>speedUpdated\<close>.
\<close>

theorem C3_location_and_speed_independent_of_status:
  "(location_reply stub w = location_reply stub' w' \<longrightarrow>
      locationUpdated_args (signals (cycle stub w)) =
      locationUpdated_args (signals (cycle stub' w')))
   \<and> (history_reply stub w = history_reply stub' w' \<longrightarrow>
      speedUpdated_args (signals (cycle stub w)) =
      speedUpdated_args (signals (cycle stub' w')))
   \<and> (\<not> ok (status (status_reply stub w))
        \<and> ok (status (location_reply stub w))
        \<and> get_location (response (location_reply stub w)) = Some loc \<and> lla loc = Some p
        \<and> ok (status (history_reply stub w)) \<longrightarrow>
      signals (cycle stub w) =
        [statusChanged False, locationUpdated (lat p) (lon p) (alt p), speedUpdated 100 20 30])"
  by (simp add: cycle_signals split: option.split)

theorem C3_witness:
  "location_reply stub_status_fails (StarlinkClient_new 0) =
     location_reply stub_all_ok (StarlinkClient_new 0)
   \<and> locationUpdated_args (signals (cycle stub_status_fails (StarlinkClient_new 0))) =
       locationUpdated_args (signals (cycle stub_all_ok (StarlinkClient_new 0)))
   \<and> history_reply stub_status_fails (StarlinkClient_new 0) =
       history_reply stub_all_ok (StarlinkClient_new 0)
   \<and> speedUpdated_args (signals (cycle stub_status_fails (StarlinkClient_new 0))) =
       speedUpdated_args (signals (cycle stub_all_ok (StarlinkClient_new 0)))
   \<and> \<not> ok (status (status_reply stub_status_fails (StarlinkClient_new 0)))
   \<and> ok (status (location_reply stub_status_fails (StarlinkClient_new 0)))
   \<and> ok (status (history_reply stub_status_fails (StarlinkClient_new 0)))
   \<and> signals (cycle stub_status_fails (StarlinkClient_new 0)) =
       [statusChanged False, locationUpdated 37.4 (- 122.1) 15, speedUpdated 100 20 30]"
  using C3_location_and_speed_independent_of_status
    [of stub_status_fails "StarlinkClient_new 0" stub_all_ok "StarlinkClient_new 0"
      "\<lparr>lla = Some \<lparr>lat = 37.4, lon = - 122.1, alt = 15\<rparr>\<rparr>"
      "\<lparr>lat = 37.4, lon = - 122.1, alt = 15\<rparr>"]
  by (simp add: cycle_signals example_defs)

text \<open>
  C4. The signals of a cycle come in the fixed order \<open>statusChanged\<close>, then
  \<open>satelliteInfoUpdated\<close> if emitted, then \<open>locationUpdated\<close> if emitted, then
  \<open>speedUpdated\<close> if emitted: their places in that order strictly increase along the
  cycle, and the first signal is \<open>statusChanged\<close>.
\<close>

theorem C4_signals_in_fixed_order:
  "increasing (map signal_rank (signals (cycle stub w)))
   \<and> map signal_rank (take 1 (signals (cycle stub w))) = [0]"
  by (simp add: cycle_signals split: option.split)

text \<open>
  C5. A cycle whose location call fails, or whose location response has no location record
  or no resolved position, emits no \<open>locationUpdated\<close>; a cycle whose history call fails
  emits no \<open>speedUpdated\<close>. The warnings of a cycle are decided by the status call alone:
  none when it succeeds, and when it fails the one line that reports its error message
  (as far as its first NUL byte). So no failure of the location or history call is ever
  reported.
\<close>

theorem C5_location_and_history_fail_silently:
  "(\<not> ok (status (location_reply stub w))
      \<or> get_location (response (location_reply stub w)) = None
      \<or> (\<exists>loc. get_location (response (location_reply stub w)) = Some loc \<and> lla loc = None)
      \<longrightarrow> locationUpdated_args (signals (cycle stub w)) = [])
   \<and> (\<not> ok (status (history_reply stub w)) \<longrightarrow>
        speedUpdated_args (signals (cycle stub w)) = [])
   \<and> warnings (cycle stub w) =
       (if ok (status (status_reply stub w)) then []
        else [[''gRPC Status Failed:'', c_str (error_message (status (status_reply stub w)))]])"
  by (auto simp add: cycle_signals cycle_eq warnings_append status_actions_def
      location_actions_def history_actions_def split: option.split)

theorem C5_witness:
  "get_location (response (location_reply stub_status_only (StarlinkClient_new 0))) =
     Some \<lparr>lla = None\<rparr>
   \<and> locationUpdated_args (signals (cycle stub_status_only (StarlinkClient_new 0))) = []
   \<and> \<not> ok (status (history_reply stub_status_only (StarlinkClient_new 0)))
   \<and> speedUpdated_args (signals (cycle stub_status_only (StarlinkClient_new 0))) = []
   \<and> warnings (cycle stub_status_only (StarlinkClient_new 0)) = []
   \<and> \<not> ok (status (location_reply stub_unreachable (StarlinkClient_new 0)))
   \<and> locationUpdated_args (signals (cycle stub_unreachable (StarlinkClient_new 0))) = []
   \<and> speedUpdated_args (signals (cycle stub_unreachable (StarlinkClient_new 0))) = []
   \<and> warnings (cycle stub_unreachable (StarlinkClient_new 0)) =
       [[''gRPC Status Failed:'', ''ab'']]"
  using C5_location_and_history_fail_silently [of stub_status_only "StarlinkClient_new 0"]
    C5_location_and_history_fail_silently [of stub_unreachable "StarlinkClient_new 0"]
  by (simp add: cycle_signals example_defs c_str_def)

text \<open>
  C6. A cycle whose history call succeeds emits exactly one \<open>speedUpdated\<close>, with the
  fixed values 100.0, 20.0 and 30.0. The response of the history call is not read: two
  cycles whose history calls agree on \<open>ok()\<close> emit the same \<open>speedUpdated\<close> signals.
\<close>

theorem C6_speedUpdated_placeholder:
  "(ok (status (history_reply stub w)) \<longrightarrow>
      speedUpdated_args (signals (cycle stub w)) = [(100, 20, 30)])
   \<and> (ok (status (history_reply stub w)) = ok (status (history_reply stub' w')) \<longrightarrow>
      speedUpdated_args (signals (cycle stub w)) =
      speedUpdated_args (signals (cycle stub' w')))"
  by (simp add: cycle_signals split: option.split)

theorem C6_witness:
  "ok (status (history_reply stub_all_ok (StarlinkClient_new 0)))
   \<and> speedUpdated_args (signals (cycle stub_all_ok (StarlinkClient_new 0))) = [(100, 20, 30)]
   \<and> ok (status (history_reply stub_all_ok (StarlinkClient_new 0))) =
       ok (status (history_reply stub_status_fails (StarlinkClient_new 7)))
   \<and> speedUpdated_args (signals (cycle stub_all_ok (StarlinkClient_new 0))) =
       speedUpdated_args (signals (cycle stub_status_fails (StarlinkClient_new 7)))"
  using C6_speedUpdated_placeholder
    [of stub_all_ok "StarlinkClient_new 0" stub_status_fails "StarlinkClient_new 7"]
  by (simp add: cycle_signals example_defs)

section \<open>Starting, stopping and destroying the client\<close>








lemma run_timeouts_inactive:
  "\<not> isActive (pollTimer w) \<Longrightarrow> run stub (replicate n Timeout) w = w"
  by (induction n) (simp_all add: timeout_def)





text \<open>
  C10. The destructor does what \<open>stopMonitoring\<close> does, in any state: the timer is
  inactive afterwards and no signal is emitted. After it, any number of ticks of the
  timer run no cycle and change nothing. On an idle client the destructor leaves the
  timer and the number of calls as they were.
\<close>

theorem C10_destructor_stops_polling:
  "StarlinkClient_delete w = stopMonitoring w
   \<and> \<not> isActive (pollTimer (StarlinkClient_delete w))
   \<and> trace (StarlinkClient_delete w) = trace w @ [TimerStop]
   \<and> run stub (replicate n Timeout) (StarlinkClient_delete w) = StarlinkClient_delete w
   \<and> (\<not> isActive (pollTimer w) \<longrightarrow>
        pollTimer (StarlinkClient_delete w) = pollTimer w
        \<and> calls (StarlinkClient_delete w) = calls w)"
  using run_timeouts_inactive [of "StarlinkClient_delete w" stub n]
  by (simp add: StarlinkClient_delete_def stopMonitoring_def QTimer_stop_def)

theorem C10_witness:
  "\<not> isActive (pollTimer (StarlinkClient_new 0 :: real world))
   \<and> pollTimer (StarlinkClient_delete (StarlinkClient_new 0 :: real world)) =
       pollTimer (StarlinkClient_new 0 :: real world)
   \<and> calls (StarlinkClient_delete (StarlinkClient_new 0 :: real world)) =
       calls (StarlinkClient_new 0 :: real world)
   \<and> run stub_all_ok (replicate 3 Timeout)
         (StarlinkClient_delete (startMonitoring stub_all_ok (StarlinkClient_new 0))) =
       StarlinkClient_delete (startMonitoring stub_all_ok (StarlinkClient_new 0))"
proof -
  have idle: "\<not> isActive (pollTimer (StarlinkClient_new 0 :: real world))"
    by (simp add: StarlinkClient_new_def)
  from idle
    C10_destructor_stops_polling [of "StarlinkClient_new 0" stub_all_ok 3]
    C10_destructor_stops_polling
      [of "startMonitoring stub_all_ok (StarlinkClient_new 0)" stub_all_ok 3]
  show ?thesis by blast
qed

end
